theory Spec2Isabelle
  imports Main
begin

section \<open>The relational store\<close>

text \<open>
  The service of \<^verbatim>\<open>index.js\<close> keeps its data in three MySQL tables. Their columns and
  constraints are those of the table definitions in the project's README (which names
  the first two tables \<^verbatim>\<open>utilisateur\<close> and \<^verbatim>\<open>session\<close>, where the handlers
  address \<^verbatim>\<open>users\<close> and \<^verbatim>\<open>sessions\<close>; the model identifies them):
  \<^item> users: id INT AUTO_INCREMENT, name, email (UNIQUE), password, role, all VARCHAR(255)
    NOT NULL;
  \<^item> sessions: id INT AUTO_INCREMENT, title VARCHAR(255) NOT NULL, date DATE NOT NULL,
    formateur\_id INT NOT NULL referencing a user, ON DELETE CASCADE;
  \<^item> emargement: id INT AUTO_INCREMENT, session\_id referencing a session, etudiant\_id
    referencing a user (both ON DELETE CASCADE), status BOOLEAN NOT NULL.

  A table is the list of its rows in insertion order. Column values are compared with
  HOL equality. A route parameter \<^verbatim>\<open>:id\<close> is modelled by the integer the server reads
  it as, and a field of a JSON body by \<open>None\<close> when it is absent and by its text (or
  boolean) otherwise.
\<close>

record user_row =
  u_id :: int
  u_name :: string
  u_email :: string
  u_password :: string
  u_role :: string

record session_row =
  s_id :: int
  s_title :: string
  s_date :: string
  formateur_id :: int

record emargement_row =
  e_id :: int
  session_id :: int
  etudiant_id :: int
  e_status :: bool

record store =
  users :: "user_row list"
  sessions :: "session_row list"
  emargement :: "emargement_row list"
  next_user_id :: int
  next_session_id :: int
  next_emargement_id :: int
  outage :: bool

text \<open>
  \<open>outage\<close> says that the connection pool cannot reach the server: every
  \<^verbatim>\<open>db.query\<close> then rejects. The three counters are the AUTO\_INCREMENT values.
\<close>

datatype store_fault =
  Unavailable | Null_column | Data_too_long | Incorrect_date | Duplicate_entry
  | Foreign_key_fails

datatype exn = ZodError | Sql_error store_fault | Lib_error string

section \<open>External collaborators\<close>

text \<open>
  The token library, the password hasher, the e-mail pattern of the validation library
  and the server's reading of a DATE literal are not part of the repository: they are
  parameters of the model. \<open>JWT_SECRET\<close> is \<^verbatim>\<open>process.env.JWT_SECRET\<close>, which may be
  undefined. A function that can throw returns \<open>Inl\<close> of the exception.
\<close>

record jwt_payload =
  payload_id :: int
  payload_role :: string

record env =
  JWT_SECRET :: "string option"
  jwt_sign :: "jwt_payload \<Rightarrow> string option \<Rightarrow> string \<Rightarrow> exn + string"
  jwt_verify :: "string \<Rightarrow> string option \<Rightarrow> exn + jwt_payload"
  bcrypt_hash :: "string \<Rightarrow> nat \<Rightarrow> string"
  bcrypt_compare :: "string option \<Rightarrow> string \<Rightarrow> exn + bool"
  zod_email :: "string \<Rightarrow> bool"
  sql_date :: "string \<Rightarrow> string option"

section \<open>Requests and responses\<close>

record req_body =
  name :: "string option"
  email :: "string option"
  password :: "string option"
  role :: "string option"
  title :: "string option"
  date :: "string option"
  status :: "bool option"

record request =
  authorization :: "string option"
  params_id :: int
  body :: req_body

datatype reply =
  Text string
  | Err_message exn
  | Json_token string
  | Json_sessions "session_row list"
  | Json_session session_row
  | Json_emargement "emargement_row list"

record response =
  http_status :: nat
  sent :: reply

text \<open>
  \<open>Err_message e\<close> is the body \<^verbatim>\<open>err.message\<close> of a caught exception \<open>e\<close>;
  \<open>Json_token t\<close> is the body \<^verbatim>\<open>{ token }\<close>.
\<close>

section \<open>The statements sent to the store\<close>

text \<open>\<^verbatim>\<open>SELECT * FROM users WHERE email = ?\<close> (an absent e-mail is bound as NULL, which
  equals no value).\<close>

definition select_users_by_email :: "store \<Rightarrow> string option \<Rightarrow> exn + user_row list" where
  "select_users_by_email db e =
     (if outage db then Inl (Sql_error Unavailable)
      else Inr (filter (\<lambda>u. Some (u_email u) = e) (users db)))"

text \<open>\<^verbatim>\<open>INSERT INTO users (name, email, password, role) VALUES (?, ?, ?, ?)\<close>\<close>

definition insert_user :: "store \<Rightarrow> string \<Rightarrow> string \<Rightarrow> string \<Rightarrow> string \<Rightarrow> exn + store" where
  "insert_user db n e p r =
     (if outage db then Inl (Sql_error Unavailable)
      else if 255 < length n \<or> 255 < length e \<or> 255 < length p \<or> 255 < length r
        then Inl (Sql_error Data_too_long)
      else if e \<in> set (map u_email (users db)) then Inl (Sql_error Duplicate_entry)
      else Inr (db\<lparr>users := users db @
                  [\<lparr>u_id = next_user_id db, u_name = n, u_email = e, u_password = p,
                    u_role = r\<rparr>],
                next_user_id := next_user_id db + 1\<rparr>))"

text \<open>The value a VARCHAR(255) NOT NULL column takes from a bound parameter.\<close>

definition varchar_column :: "string option \<Rightarrow> exn + string" where
  "varchar_column v =
     (case v of
        None \<Rightarrow> Inl (Sql_error Null_column)
      | Some s \<Rightarrow> if 255 < length s then Inl (Sql_error Data_too_long) else Inr s)"

text \<open>The value a DATE NOT NULL column takes from a bound parameter.\<close>

definition date_column :: "env \<Rightarrow> string option \<Rightarrow> exn + string" where
  "date_column env v =
     (case v of
        None \<Rightarrow> Inl (Sql_error Null_column)
      | Some s \<Rightarrow> (case sql_date env s of
                    None \<Rightarrow> Inl (Sql_error Incorrect_date)
                  | Some d \<Rightarrow> Inr d))"

text \<open>\<^verbatim>\<open>INSERT INTO sessions (title, date, formateur_id) VALUES (?, ?, ?)\<close>\<close>

definition insert_session ::
  "env \<Rightarrow> store \<Rightarrow> string option \<Rightarrow> string option \<Rightarrow> int \<Rightarrow> exn + store" where
  "insert_session env db t d f =
     (if outage db then Inl (Sql_error Unavailable)
      else case varchar_column t of
        Inl err \<Rightarrow> Inl err
      | Inr t' \<Rightarrow>
          (case date_column env d of
             Inl err \<Rightarrow> Inl err
           | Inr d' \<Rightarrow>
               if f \<notin> set (map u_id (users db)) then Inl (Sql_error Foreign_key_fails)
               else Inr (db\<lparr>sessions := sessions db @
                           [\<lparr>s_id = next_session_id db, s_title = t', s_date = d',
                             formateur_id = f\<rparr>],
                         next_session_id := next_session_id db + 1\<rparr>)))"

text \<open>\<^verbatim>\<open>SELECT * FROM sessions\<close>\<close>

definition select_sessions :: "store \<Rightarrow> exn + session_row list" where
  "select_sessions db =
     (if outage db then Inl (Sql_error Unavailable) else Inr (sessions db))"

text \<open>\<^verbatim>\<open>SELECT * FROM sessions WHERE id = ?\<close>\<close>

definition select_session_by_id :: "store \<Rightarrow> int \<Rightarrow> exn + session_row list" where
  "select_session_by_id db i =
     (if outage db then Inl (Sql_error Unavailable)
      else Inr (filter (\<lambda>s. s_id s = i) (sessions db)))"

text \<open>\<^verbatim>\<open>UPDATE sessions SET title = ?, date = ? WHERE id = ?\<close>: the new values are
  stored row by row, so they are checked against the columns only when a row matches.\<close>

definition update_session ::
  "env \<Rightarrow> store \<Rightarrow> string option \<Rightarrow> string option \<Rightarrow> int \<Rightarrow> exn + store" where
  "update_session env db t d i =
     (if outage db then Inl (Sql_error Unavailable)
      else if i \<notin> set (map s_id (sessions db)) then Inr db
      else case varchar_column t of
        Inl err \<Rightarrow> Inl err
      | Inr t' \<Rightarrow>
          (case date_column env d of
             Inl err \<Rightarrow> Inl err
           | Inr d' \<Rightarrow>
               Inr (db\<lparr>sessions :=
                      map (\<lambda>s. if s_id s = i then s\<lparr>s_title := t', s_date := d'\<rparr> else s)
                        (sessions db)\<rparr>)))"

text \<open>\<^verbatim>\<open>DELETE FROM sessions WHERE id = ?\<close>: the attendance rows of a deleted session
  go with it (ON DELETE CASCADE).\<close>

definition delete_session :: "store \<Rightarrow> int \<Rightarrow> exn + store" where
  "delete_session db i =
     (if outage db then Inl (Sql_error Unavailable)
      else Inr (db\<lparr>sessions := filter (\<lambda>s. s_id s \<noteq> i) (sessions db),
                emargement :=
                  (if i \<in> set (map s_id (sessions db))
                   then filter (\<lambda>e. session_id e \<noteq> i) (emargement db)
                   else emargement db)\<rparr>))"

text \<open>\<^verbatim>\<open>INSERT INTO emargement (session_id, etudiant_id, status) VALUES (?, ?, ?)\<close>\<close>

definition insert_emargement :: "store \<Rightarrow> int \<Rightarrow> int \<Rightarrow> bool option \<Rightarrow> exn + store" where
  "insert_emargement db i etu st =
     (if outage db then Inl (Sql_error Unavailable)
      else case st of
        None \<Rightarrow> Inl (Sql_error Null_column)
      | Some b \<Rightarrow>
          if i \<notin> set (map s_id (sessions db)) \<or> etu \<notin> set (map u_id (users db))
          then Inl (Sql_error Foreign_key_fails)
          else Inr (db\<lparr>emargement := emargement db @
                      [\<lparr>e_id = next_emargement_id db, session_id = i, etudiant_id = etu,
                        e_status = b\<rparr>],
                    next_emargement_id := next_emargement_id db + 1\<rparr>))"

text \<open>\<^verbatim>\<open>SELECT * FROM emargement WHERE session_id = ?\<close>\<close>

definition select_emargement :: "store \<Rightarrow> int \<Rightarrow> exn + emargement_row list" where
  "select_emargement db i =
     (if outage db then Inl (Sql_error Unavailable)
      else Inr (filter (\<lambda>e. session_id e = i) (emargement db)))"

section \<open>The access guard\<close>

text \<open>JavaScript's \<^verbatim>\<open>split(" ")\<close>: the pieces between the spaces, empty ones kept.\<close>

fun split_space :: "string \<Rightarrow> string list" where
  "split_space [] = [[]]"
| "split_space (c # cs) =
     (if c = CHR '' '' then [] # split_space cs
      else (case split_space cs of
              [] \<Rightarrow> [[c]]
            | w # ws \<Rightarrow> (c # w) # ws))"

text \<open>\<^verbatim>\<open>req.headers.authorization?.split(" ")[1]\<close>; \<open>None\<close> is \<^verbatim>\<open>undefined\<close>.\<close>

definition header_token :: "request \<Rightarrow> string option" where
  "header_token req =
     (case authorization req of
        None \<Rightarrow> None
      | Some h \<Rightarrow> (case split_space h of
                    _ # t # _ \<Rightarrow> Some t
                  | _ \<Rightarrow> None))"

definition access_denied :: response where
  "access_denied = \<lparr>http_status = 403, sent = Text ''Access Denied''\<rparr>"

definition invalid_token :: response where
  "invalid_token = \<lparr>http_status = 403, sent = Text ''Invalid Token''\<rparr>"

text \<open>
  \<open>authenticateJWT\<close>: the middleware. \<^verbatim>\<open>req.user = user; next()\<close> hands the decoded
  identity to the route's handler, here the argument \<open>handler\<close>; an undefined and an
  empty token are both falsy.
\<close>

definition authenticateJWT ::
  "env \<Rightarrow> request \<Rightarrow> (jwt_payload \<Rightarrow> request \<Rightarrow> store \<Rightarrow> response \<times> store) \<Rightarrow> store
    \<Rightarrow> response \<times> store" where
  "authenticateJWT env req handler db =
     (case header_token req of
        None \<Rightarrow> (access_denied, db)
      | Some token \<Rightarrow>
          if token = [] then (access_denied, db)
          else (case jwt_verify env token (JWT_SECRET env) of
                  Inl err \<Rightarrow> (invalid_token, db)
                | Inr u \<Rightarrow> handler u req db))"

section \<open>Authentication routes\<close>

text \<open>\<open>userSchema.parse\<close>: the four rules of the schema.\<close>

definition userSchema_parse ::
  "env \<Rightarrow> req_body \<Rightarrow> exn + (string \<times> string \<times> string \<times> string)" where
  "userSchema_parse env b =
     (case (name b, email b, password b, role b) of
        (Some n, Some e, Some p, Some r) \<Rightarrow>
          if 1 \<le> length n \<and> zod_email env e \<and> 6 \<le> length p
             \<and> (r = ''formateur'' \<or> r = ''etudiant'')
          then Inr (n, e, p, r)
          else Inl ZodError
      | _ \<Rightarrow> Inl ZodError)"

text \<open>\<^verbatim>\<open>POST /auth/signup\<close>\<close>

definition post_auth_signup :: "env \<Rightarrow> request \<Rightarrow> store \<Rightarrow> response \<times> store" where
  "post_auth_signup env req db =
     (case userSchema_parse env (body req) of
        Inl err \<Rightarrow> (\<lparr>http_status = 400, sent = Err_message err\<rparr>, db)
      | Inr (n, e, p, r) \<Rightarrow>
          (let hashedPassword = bcrypt_hash env p 10 in
           case insert_user db n e hashedPassword r of
             Inl err \<Rightarrow> (\<lparr>http_status = 400, sent = Err_message err\<rparr>, db)
           | Inr db' \<Rightarrow>
               (\<lparr>http_status = 201, sent = Text ''User registered successfully''\<rparr>, db')))"

definition invalid_credentials :: response where
  "invalid_credentials = \<lparr>http_status = 401, sent = Text ''Invalid email or password''\<rparr>"

text \<open>\<^verbatim>\<open>POST /auth/login\<close>: \<^verbatim>\<open>rows[0]\<close> is undefined on an empty result, and the
  comparison is not evaluated then.\<close>

definition post_auth_login :: "env \<Rightarrow> request \<Rightarrow> store \<Rightarrow> response \<times> store" where
  "post_auth_login env req db =
     (case select_users_by_email db (email (body req)) of
        Inl err \<Rightarrow> (\<lparr>http_status = 500, sent = Err_message err\<rparr>, db)
      | Inr rows \<Rightarrow>
          (case rows of
             [] \<Rightarrow> (invalid_credentials, db)
           | u # _ \<Rightarrow>
               (case bcrypt_compare env (password (body req)) (u_password u) of
                  Inl err \<Rightarrow> (\<lparr>http_status = 500, sent = Err_message err\<rparr>, db)
                | Inr matches \<Rightarrow>
                    if \<not> matches then (invalid_credentials, db)
                    else (case jwt_sign env
                                 \<lparr>payload_id = u_id u, payload_role = u_role u\<rparr>
                                 (JWT_SECRET env) ''1h'' of
                            Inl err \<Rightarrow> (\<lparr>http_status = 500, sent = Err_message err\<rparr>, db)
                          | Inr token \<Rightarrow>
                              (\<lparr>http_status = 200, sent = Json_token token\<rparr>, db)))))"

section \<open>Session routes\<close>

text \<open>\<^verbatim>\<open>POST /sessions\<close>, behind the guard.\<close>

definition post_sessions_handler ::
  "env \<Rightarrow> jwt_payload \<Rightarrow> request \<Rightarrow> store \<Rightarrow> response \<times> store" where
  "post_sessions_handler env u req db =
     (if payload_role u \<noteq> ''formateur'' then (access_denied, db)
      else case insert_session env db (title (body req)) (date (body req)) (payload_id u) of
        Inl err \<Rightarrow> (\<lparr>http_status = 400, sent = Err_message err\<rparr>, db)
      | Inr db' \<Rightarrow>
          (\<lparr>http_status = 201, sent = Text ''Session created successfully''\<rparr>, db'))"

definition post_sessions :: "env \<Rightarrow> request \<Rightarrow> store \<Rightarrow> response \<times> store" where
  "post_sessions env req db = authenticateJWT env req (post_sessions_handler env) db"

definition session_not_found :: response where
  "session_not_found = \<lparr>http_status = 404, sent = Text ''Session not found''\<rparr>"

text \<open>\<^verbatim>\<open>GET /sessions\<close>\<close>

definition get_sessions :: "env \<Rightarrow> request \<Rightarrow> store \<Rightarrow> response \<times> store" where
  "get_sessions env req db =
     (case select_sessions db of
        Inl err \<Rightarrow> (\<lparr>http_status = 500, sent = Err_message err\<rparr>, db)
      | Inr rows \<Rightarrow>
          if length rows = 0 then (session_not_found, db)
          else (\<lparr>http_status = 200, sent = Json_sessions rows\<rparr>, db))"

text \<open>\<^verbatim>\<open>GET /sessions/:id\<close>\<close>

definition get_sessions_id :: "env \<Rightarrow> request \<Rightarrow> store \<Rightarrow> response \<times> store" where
  "get_sessions_id env req db =
     (case select_session_by_id db (params_id req) of
        Inl err \<Rightarrow> (\<lparr>http_status = 500, sent = Err_message err\<rparr>, db)
      | Inr rows \<Rightarrow>
          (case rows of
             [] \<Rightarrow> (session_not_found, db)
           | r # _ \<Rightarrow> (\<lparr>http_status = 200, sent = Json_session r\<rparr>, db)))"

text \<open>\<^verbatim>\<open>PUT /sessions/:id\<close>, behind the guard.\<close>

definition put_sessions_id_handler ::
  "env \<Rightarrow> jwt_payload \<Rightarrow> request \<Rightarrow> store \<Rightarrow> response \<times> store" where
  "put_sessions_id_handler env u req db =
     (if payload_role u \<noteq> ''formateur'' then (access_denied, db)
      else case update_session env db (title (body req)) (date (body req)) (params_id req) of
        Inl err \<Rightarrow> (\<lparr>http_status = 400, sent = Err_message err\<rparr>, db)
      | Inr db' \<Rightarrow>
          (\<lparr>http_status = 200, sent = Text ''Session updated successfully''\<rparr>, db'))"

definition put_sessions_id :: "env \<Rightarrow> request \<Rightarrow> store \<Rightarrow> response \<times> store" where
  "put_sessions_id env req db = authenticateJWT env req (put_sessions_id_handler env) db"

text \<open>\<^verbatim>\<open>DELETE /sessions/:id\<close>, behind the guard.\<close>

definition delete_sessions_id_handler ::
  "env \<Rightarrow> jwt_payload \<Rightarrow> request \<Rightarrow> store \<Rightarrow> response \<times> store" where
  "delete_sessions_id_handler env u req db =
     (if payload_role u \<noteq> ''formateur'' then (access_denied, db)
      else case delete_session db (params_id req) of
        Inl err \<Rightarrow> (\<lparr>http_status = 400, sent = Err_message err\<rparr>, db)
      | Inr db' \<Rightarrow>
          (\<lparr>http_status = 200, sent = Text ''Session deleted successfully''\<rparr>, db'))"

definition delete_sessions_id :: "env \<Rightarrow> request \<Rightarrow> store \<Rightarrow> response \<times> store" where
  "delete_sessions_id env req db =
     authenticateJWT env req (delete_sessions_id_handler env) db"

section \<open>Attendance routes\<close>

text \<open>\<^verbatim>\<open>POST /sessions/:id/emargement\<close>, behind the guard.\<close>

definition post_emargement_handler ::
  "env \<Rightarrow> jwt_payload \<Rightarrow> request \<Rightarrow> store \<Rightarrow> response \<times> store" where
  "post_emargement_handler env u req db =
     (if payload_role u \<noteq> ''etudiant'' then (access_denied, db)
      else case insert_emargement db (params_id req) (payload_id u) (status (body req)) of
        Inl err \<Rightarrow> (\<lparr>http_status = 400, sent = Err_message err\<rparr>, db)
      | Inr db' \<Rightarrow>
          (\<lparr>http_status = 201, sent = Text ''Attendance marked successfully''\<rparr>, db'))"

definition post_emargement :: "env \<Rightarrow> request \<Rightarrow> store \<Rightarrow> response \<times> store" where
  "post_emargement env req db = authenticateJWT env req (post_emargement_handler env) db"

text \<open>\<^verbatim>\<open>GET /sessions/:id/emargement\<close>, behind the guard.\<close>

definition get_emargement_handler ::
  "env \<Rightarrow> jwt_payload \<Rightarrow> request \<Rightarrow> store \<Rightarrow> response \<times> store" where
  "get_emargement_handler env u req db =
     (if payload_role u \<noteq> ''formateur'' then (access_denied, db)
      else case select_emargement db (params_id req) of
        Inl err \<Rightarrow> (\<lparr>http_status = 500, sent = Err_message err\<rparr>, db)
      | Inr rows \<Rightarrow> (\<lparr>http_status = 200, sent = Json_emargement rows\<rparr>, db))"

definition get_emargement :: "env \<Rightarrow> request \<Rightarrow> store \<Rightarrow> response \<times> store" where
  "get_emargement env req db = authenticateJWT env req (get_emargement_handler env) db"

text \<open>The five routes registered with \<open>authenticateJWT\<close>.\<close>

definition protected_routes :: "(env \<Rightarrow> request \<Rightarrow> store \<Rightarrow> response \<times> store) list" where
  "protected_routes =
     [post_sessions, put_sessions_id, delete_sessions_id, post_emargement, get_emargement]"

section \<open>Sample data\<close>

text \<open>
  A small instance on which the theorems below are exercised: toy collaborators (two
  tokens, a hash that prefixes its input, a comparison that throws on an absent
  password as the hasher's own does), a store with one trainer, one student and one
  session, and a few requests.
\<close>

definition sample_env :: env where
  "sample_env =
     \<lparr>JWT_SECRET = Some ''s3cret'',
      jwt_sign = (\<lambda>p k e.
        case k of
          None \<Rightarrow> Inl (Lib_error ''secretOrPrivateKey must have a value'')
        | Some _ \<Rightarrow>
            Inr (if payload_role p = ''formateur'' then ''tok-formateur''
                 else ''tok-etudiant'')),
      jwt_verify = (\<lambda>t k.
        if t = ''tok-formateur'' then Inr \<lparr>payload_id = 1, payload_role = ''formateur''\<rparr>
        else if t = ''tok-etudiant'' then Inr \<lparr>payload_id = 2, payload_role = ''etudiant''\<rparr>
        else Inl (Lib_error ''jwt malformed'')),
      bcrypt_hash = (\<lambda>p rounds. ''$2b$'' @ p),
      bcrypt_compare = (\<lambda>d h.
        case d of
          None \<Rightarrow> Inl (Lib_error ''data and hash arguments required'')
        | Some p \<Rightarrow> Inr (h = ''$2b$'' @ p)),
      zod_email = (\<lambda>e. CHR ''@'' \<in> set e),
      sql_date = (\<lambda>d. if length d = 10 then Some d else None)\<rparr>"

definition ada :: user_row where
  "ada =
     \<lparr>u_id = 1, u_name = ''Ada'', u_email = ''ada@ws.fr'', u_password = ''$2b$secret1'',
      u_role = ''formateur''\<rparr>"

definition bob :: user_row where
  "bob =
     \<lparr>u_id = 2, u_name = ''Bob'', u_email = ''bob@ws.fr'', u_password = ''$2b$secret2'',
      u_role = ''etudiant''\<rparr>"

definition sample_store :: store where
  "sample_store =
     \<lparr>users = [ada, bob],
      sessions =
        [\<lparr>s_id = 1, s_title = ''Isabelle'', s_date = ''2025-01-15'', formateur_id = 1\<rparr>],
      emargement = [],
      next_user_id = 3, next_session_id = 2, next_emargement_id = 1,
      outage = False\<rparr>"

definition empty_store :: store where
  "empty_store =
     \<lparr>users = [], sessions = [], emargement = [],
      next_user_id = 1, next_session_id = 1, next_emargement_id = 1, outage = False\<rparr>"

definition no_body :: req_body where
  "no_body =
     \<lparr>name = None, email = None, password = None, role = None, title = None, date = None,
      status = None\<rparr>"

definition signup_body :: "string \<Rightarrow> string \<Rightarrow> string \<Rightarrow> string \<Rightarrow> req_body" where
  "signup_body n e p r =
     no_body\<lparr>name := Some n, email := Some e, password := Some p, role := Some r\<rparr>"

definition login_body :: "string \<Rightarrow> string \<Rightarrow> req_body" where
  "login_body e p = no_body\<lparr>email := Some e, password := Some p\<rparr>"

definition session_body :: "string \<Rightarrow> string \<Rightarrow> req_body" where
  "session_body t d = no_body\<lparr>title := Some t, date := Some d\<rparr>"

definition sample_request :: "string option \<Rightarrow> int \<Rightarrow> req_body \<Rightarrow> request" where
  "sample_request h i b = \<lparr>authorization = h, params_id = i, body = b\<rparr>"

lemmas sample_defs =
  sample_env_def sample_store_def empty_store_def ada_def bob_def no_body_def
  signup_body_def login_body_def session_body_def sample_request_def

section \<open>The access guard rejects before the handler runs\<close>

lemma guard_no_token:
  "header_token req = None \<or> header_token req = Some [] \<Longrightarrow>
     authenticateJWT env req handler db = (access_denied, db)"
  by (auto simp: authenticateJWT_def)

lemma guard_bad_token:
  "header_token req = Some t \<Longrightarrow> t \<noteq> [] \<Longrightarrow> jwt_verify env t (JWT_SECRET env) = Inl e \<Longrightarrow>
     authenticateJWT env req handler db = (invalid_token, db)"
  by (simp add: authenticateJWT_def)

lemma guard_good_token:
  "header_token req = Some t \<Longrightarrow> t \<noteq> [] \<Longrightarrow> jwt_verify env t (JWT_SECRET env) = Inr u \<Longrightarrow>
     authenticateJWT env req handler db = handler u req db"
  by (simp add: authenticateJWT_def)

text \<open>The scheme word is not examined: the token is whatever follows the first space.\<close>

lemma header_token_any_scheme:
  "header_token (sample_request (Some ''Basic tok-formateur'') 1 no_body)
     = Some ''tok-formateur''"
  by (simp add: header_token_def sample_request_def)

lemma protected_route_cases:
  "route \<in> set protected_routes \<Longrightarrow>
     \<exists>handler. \<forall>env req db. route env req db = authenticateJWT env req (handler env) db"
  unfolding protected_routes_def
  by (auto simp: post_sessions_def put_sessions_id_def delete_sessions_id_def
      post_emargement_def get_emargement_def fun_eq_iff)

text \<open>
  C3. On every protected route, a request whose authorization header yields no token
  (no header, no second word, or an empty one) and a request whose token the verifier
  refuses (bad signature, expiry passed) are answered 403 with the store as it was,
  whatever the handler is: the handler is not run. On a token the verifier accepts, the
  guard runs the handler with the decoded identity, and so does each of the five routes
  with its own handler.
\<close>

theorem guard_rejects_before_handler:
  "(header_token req = None \<or> header_token req = Some [] \<longrightarrow>
      authenticateJWT env req handler db
        = (\<lparr>http_status = 403, sent = Text ''Access Denied''\<rparr>, db))
   \<and> (\<forall>t e. header_token req = Some t \<and> t \<noteq> [] \<and> jwt_verify env t (JWT_SECRET env) = Inl e \<longrightarrow>
      authenticateJWT env req handler db
        = (\<lparr>http_status = 403, sent = Text ''Invalid Token''\<rparr>, db))
   \<and> (\<forall>t u. header_token req = Some t \<and> t \<noteq> [] \<and> jwt_verify env t (JWT_SECRET env) = Inr u \<longrightarrow>
      authenticateJWT env req handler db = handler u req db)
   \<and> (\<forall>route \<in> set protected_routes.
        (header_token req = None \<or> header_token req = Some [] \<longrightarrow>
           route env req db = (\<lparr>http_status = 403, sent = Text ''Access Denied''\<rparr>, db))
        \<and> (\<forall>t e. header_token req = Some t \<and> t \<noteq> []
               \<and> jwt_verify env t (JWT_SECRET env) = Inl e \<longrightarrow>
           route env req db = (\<lparr>http_status = 403, sent = Text ''Invalid Token''\<rparr>, db)))
   \<and> (\<forall>t u. header_token req = Some t \<and> t \<noteq> [] \<and> jwt_verify env t (JWT_SECRET env) = Inr u \<longrightarrow>
        post_sessions env req db = post_sessions_handler env u req db
        \<and> put_sessions_id env req db = put_sessions_id_handler env u req db
        \<and> delete_sessions_id env req db = delete_sessions_id_handler env u req db
        \<and> post_emargement env req db = post_emargement_handler env u req db
        \<and> get_emargement env req db = get_emargement_handler env u req db)"
proof (intro conjI ballI allI impI)
  fix route
  assume "route \<in> set protected_routes"
  then obtain h where h: "\<And>env req db. route env req db = authenticateJWT env req (h env) db"
    using protected_route_cases by blast
  {
    assume "header_token req = None \<or> header_token req = Some []"
    then show "route env req db = (\<lparr>http_status = 403, sent = Text ''Access Denied''\<rparr>, db)"
      using guard_no_token [of req env "h env" db] by (simp add: h access_denied_def)
  }
  {
    fix t e
    assume "header_token req = Some t \<and> t \<noteq> [] \<and> jwt_verify env t (JWT_SECRET env) = Inl e"
    then show "route env req db = (\<lparr>http_status = 403, sent = Text ''Invalid Token''\<rparr>, db)"
      using guard_bad_token [of req t env e "h env" db] by (simp add: h invalid_token_def)
  }
qed (auto simp: guard_no_token guard_bad_token guard_good_token
       post_sessions_def put_sessions_id_def delete_sessions_id_def post_emargement_def
       get_emargement_def
       simp flip: access_denied_def invalid_token_def)

theorem guard_rejects_before_handler_witness:
  "header_token (sample_request (Some ''Bearer'') 1 no_body) = None
   \<and> authenticateJWT sample_env (sample_request (Some ''Bearer'') 1 no_body)
       (delete_sessions_id_handler sample_env) sample_store
     = (\<lparr>http_status = 403, sent = Text ''Access Denied''\<rparr>, sample_store)
   \<and> delete_sessions_id \<in> set protected_routes
   \<and> delete_sessions_id sample_env (sample_request (Some ''Bearer'') 1 no_body) sample_store
     = (\<lparr>http_status = 403, sent = Text ''Access Denied''\<rparr>, sample_store)
   \<and> header_token (sample_request (Some ''Bearer forged'') 1 no_body) = Some ''forged''
   \<and> jwt_verify sample_env ''forged'' (JWT_SECRET sample_env) = Inl (Lib_error ''jwt malformed'')
   \<and> delete_sessions_id sample_env (sample_request (Some ''Bearer forged'') 1 no_body)
       sample_store
     = (\<lparr>http_status = 403, sent = Text ''Invalid Token''\<rparr>, sample_store)
   \<and> header_token (sample_request (Some ''Bearer tok-formateur'') 1 no_body)
     = Some ''tok-formateur''
   \<and> jwt_verify sample_env ''tok-formateur'' (JWT_SECRET sample_env)
     = Inr \<lparr>payload_id = 1, payload_role = ''formateur''\<rparr>
   \<and> authenticateJWT sample_env (sample_request (Some ''Bearer tok-formateur'') 1 no_body)
       (delete_sessions_id_handler sample_env) sample_store
     = delete_sessions_id_handler sample_env \<lparr>payload_id = 1, payload_role = ''formateur''\<rparr>
         (sample_request (Some ''Bearer tok-formateur'') 1 no_body) sample_store
   \<and> delete_sessions_id sample_env (sample_request (Some ''Bearer tok-formateur'') 1 no_body)
       sample_store
     = delete_sessions_id_handler sample_env \<lparr>payload_id = 1, payload_role = ''formateur''\<rparr>
         (sample_request (Some ''Bearer tok-formateur'') 1 no_body) sample_store
   \<and> delete_sessions_id sample_env (sample_request (Some ''Bearer tok-formateur'') 1 no_body)
       sample_store
     = (\<lparr>http_status = 200, sent = Text ''Session deleted successfully''\<rparr>,
        sample_store\<lparr>sessions := [], emargement := []\<rparr>)"
proof -
  let ?h = "delete_sessions_id_handler sample_env"
  have a: "header_token (sample_request (Some ''Bearer'') 1 no_body) = None"
    by (simp add: header_token_def sample_request_def)
  have b: "header_token (sample_request (Some ''Bearer forged'') 1 no_body) = Some ''forged''"
    by (simp add: header_token_def sample_request_def)
  have c: "jwt_verify sample_env ''forged'' (JWT_SECRET sample_env)
             = Inl (Lib_error ''jwt malformed'')"
    by (simp add: sample_env_def)
  have d: "header_token (sample_request (Some ''Bearer tok-formateur'') 1 no_body)
             = Some ''tok-formateur''"
    by (simp add: header_token_def sample_request_def)
  have e: "jwt_verify sample_env ''tok-formateur'' (JWT_SECRET sample_env)
             = Inr \<lparr>payload_id = 1, payload_role = ''formateur''\<rparr>"
    by (simp add: sample_env_def)
  have r: "delete_sessions_id \<in> set protected_routes"
    by (simp add: protected_routes_def)
  have n: "''forged'' \<noteq> []" "''tok-formateur'' \<noteq> []" by simp_all
  note g1 = guard_rejects_before_handler
      [of "sample_request (Some ''Bearer'') 1 no_body" sample_env ?h sample_store]
  note g2 = guard_rejects_before_handler
      [of "sample_request (Some ''Bearer forged'') 1 no_body" sample_env ?h sample_store]
  note g3 = guard_rejects_before_handler
      [of "sample_request (Some ''Bearer tok-formateur'') 1 no_body" sample_env ?h
        sample_store]
  from g1 a r have 1: "authenticateJWT sample_env (sample_request (Some ''Bearer'') 1 no_body)
       ?h sample_store = (\<lparr>http_status = 403, sent = Text ''Access Denied''\<rparr>, sample_store)"
    and 2: "delete_sessions_id sample_env (sample_request (Some ''Bearer'') 1 no_body)
       sample_store = (\<lparr>http_status = 403, sent = Text ''Access Denied''\<rparr>, sample_store)"
    by blast+
  from g2 b c n r have 3: "delete_sessions_id sample_env
       (sample_request (Some ''Bearer forged'') 1 no_body) sample_store
     = (\<lparr>http_status = 403, sent = Text ''Invalid Token''\<rparr>, sample_store)"
    by blast
  from g3 d e n have 4: "authenticateJWT sample_env
       (sample_request (Some ''Bearer tok-formateur'') 1 no_body) ?h sample_store
     = ?h \<lparr>payload_id = 1, payload_role = ''formateur''\<rparr>
         (sample_request (Some ''Bearer tok-formateur'') 1 no_body) sample_store"
    by blast
  from g3 d e n have 5: "delete_sessions_id sample_env
       (sample_request (Some ''Bearer tok-formateur'') 1 no_body) sample_store
     = ?h \<lparr>payload_id = 1, payload_role = ''formateur''\<rparr>
         (sample_request (Some ''Bearer tok-formateur'') 1 no_body) sample_store"
    by blast
  have "?h \<lparr>payload_id = 1, payload_role = ''formateur''\<rparr>
         (sample_request (Some ''Bearer tok-formateur'') 1 no_body) sample_store
     = (\<lparr>http_status = 200, sent = Text ''Session deleted successfully''\<rparr>,
        sample_store\<lparr>sessions := [], emargement := []\<rparr>)"
    by (simp add: delete_sessions_id_handler_def delete_session_def sample_request_def
        sample_store_def)
  with 5 have 6: "delete_sessions_id sample_env
       (sample_request (Some ''Bearer tok-formateur'') 1 no_body) sample_store
     = (\<lparr>http_status = 200, sent = Text ''Session deleted successfully''\<rparr>,
        sample_store\<lparr>sessions := [], emargement := []\<rparr>)"
    by simp
  from a r b c d e 1 2 3 4 5 6 show ?thesis by blast
qed

section \<open>The role check of each route\<close>

lemma post_sessions_handler_trainer:
  "payload_role u = ''formateur'' \<Longrightarrow>
     http_status (fst (post_sessions_handler env u req db)) \<noteq> 403"
  by (simp add: post_sessions_handler_def split: sum.splits)

lemma put_sessions_id_handler_trainer:
  "payload_role u = ''formateur'' \<Longrightarrow>
     http_status (fst (put_sessions_id_handler env u req db)) \<noteq> 403"
  by (simp add: put_sessions_id_handler_def split: sum.splits)

lemma delete_sessions_id_handler_trainer:
  "payload_role u = ''formateur'' \<Longrightarrow>
     http_status (fst (delete_sessions_id_handler env u req db)) \<noteq> 403"
  by (simp add: delete_sessions_id_handler_def split: sum.splits)

lemma get_emargement_handler_trainer:
  "payload_role u = ''formateur'' \<Longrightarrow>
     http_status (fst (get_emargement_handler env u req db)) \<noteq> 403"
  by (simp add: get_emargement_handler_def split: sum.splits)

lemma post_emargement_handler_student:
  "payload_role u = ''etudiant'' \<Longrightarrow>
     http_status (fst (post_emargement_handler env u req db)) \<noteq> 403"
  by (simp add: post_emargement_handler_def split: sum.splits)

text \<open>
  C2. For a request whose token the verifier accepts: with the role \<open>etudiant\<close>
  (student), creating, updating and deleting a session and listing a session's
  attendance are answered 403 with the store unchanged, and marking attendance is not
  answered 403; with the role \<open>formateur\<close> (trainer), marking attendance is answered 403
  with the store unchanged, and the four trainer routes are not answered 403.
\<close>

theorem role_gate:
  assumes tok: "header_token req = Some t" "t \<noteq> []"
      "jwt_verify env t (JWT_SECRET env) = Inr u"
  shows "(payload_role u = ''etudiant'' \<longrightarrow>
            post_sessions env req db
              = (\<lparr>http_status = 403, sent = Text ''Access Denied''\<rparr>, db)
          \<and> put_sessions_id env req db
              = (\<lparr>http_status = 403, sent = Text ''Access Denied''\<rparr>, db)
          \<and> delete_sessions_id env req db
              = (\<lparr>http_status = 403, sent = Text ''Access Denied''\<rparr>, db)
          \<and> get_emargement env req db
              = (\<lparr>http_status = 403, sent = Text ''Access Denied''\<rparr>, db)
          \<and> http_status (fst (post_emargement env req db)) \<noteq> 403)
       \<and> (payload_role u = ''formateur'' \<longrightarrow>
            post_emargement env req db
              = (\<lparr>http_status = 403, sent = Text ''Access Denied''\<rparr>, db)
          \<and> http_status (fst (post_sessions env req db)) \<noteq> 403
          \<and> http_status (fst (put_sessions_id env req db)) \<noteq> 403
          \<and> http_status (fst (delete_sessions_id env req db)) \<noteq> 403
          \<and> http_status (fst (get_emargement env req db)) \<noteq> 403)"
proof (intro conjI impI)
  assume s: "payload_role u = ''etudiant''"
  show "post_sessions env req db = (\<lparr>http_status = 403, sent = Text ''Access Denied''\<rparr>, db)"
    using s by (simp add: post_sessions_def guard_good_token [OF tok]
        post_sessions_handler_def access_denied_def)
  show "put_sessions_id env req db = (\<lparr>http_status = 403, sent = Text ''Access Denied''\<rparr>, db)"
    using s by (simp add: put_sessions_id_def guard_good_token [OF tok]
        put_sessions_id_handler_def access_denied_def)
  show "delete_sessions_id env req db
          = (\<lparr>http_status = 403, sent = Text ''Access Denied''\<rparr>, db)"
    using s by (simp add: delete_sessions_id_def guard_good_token [OF tok]
        delete_sessions_id_handler_def access_denied_def)
  show "get_emargement env req db = (\<lparr>http_status = 403, sent = Text ''Access Denied''\<rparr>, db)"
    using s by (simp add: get_emargement_def guard_good_token [OF tok]
        get_emargement_handler_def access_denied_def)
  show "http_status (fst (post_emargement env req db)) \<noteq> 403"
    using post_emargement_handler_student [OF s]
    by (simp add: post_emargement_def guard_good_token [OF tok])
next
  assume f: "payload_role u = ''formateur''"
  show "post_emargement env req db = (\<lparr>http_status = 403, sent = Text ''Access Denied''\<rparr>, db)"
    using f by (simp add: post_emargement_def guard_good_token [OF tok]
        post_emargement_handler_def access_denied_def)
  show "http_status (fst (post_sessions env req db)) \<noteq> 403"
    using post_sessions_handler_trainer [OF f]
    by (simp add: post_sessions_def guard_good_token [OF tok])
  show "http_status (fst (put_sessions_id env req db)) \<noteq> 403"
    using put_sessions_id_handler_trainer [OF f]
    by (simp add: put_sessions_id_def guard_good_token [OF tok])
  show "http_status (fst (delete_sessions_id env req db)) \<noteq> 403"
    using delete_sessions_id_handler_trainer [OF f]
    by (simp add: delete_sessions_id_def guard_good_token [OF tok])
  show "http_status (fst (get_emargement env req db)) \<noteq> 403"
    using get_emargement_handler_trainer [OF f]
    by (simp add: get_emargement_def guard_good_token [OF tok])
qed

theorem role_gate_witness:
  "header_token (sample_request (Some ''Bearer tok-etudiant'') 1 (session_body ''HOL'' ''2025-02-01''))
     = Some ''tok-etudiant''
   \<and> jwt_verify sample_env ''tok-etudiant'' (JWT_SECRET sample_env)
     = Inr \<lparr>payload_id = 2, payload_role = ''etudiant''\<rparr>
   \<and> post_sessions sample_env
       (sample_request (Some ''Bearer tok-etudiant'') 1 (session_body ''HOL'' ''2025-02-01''))
       sample_store
     = (\<lparr>http_status = 403, sent = Text ''Access Denied''\<rparr>, sample_store)
   \<and> delete_sessions_id sample_env
       (sample_request (Some ''Bearer tok-etudiant'') 1 (session_body ''HOL'' ''2025-02-01''))
       sample_store
     = (\<lparr>http_status = 403, sent = Text ''Access Denied''\<rparr>, sample_store)
   \<and> header_token (sample_request (Some ''Bearer tok-formateur'') 1 (no_body\<lparr>status := Some True\<rparr>))
     = Some ''tok-formateur''
   \<and> jwt_verify sample_env ''tok-formateur'' (JWT_SECRET sample_env)
     = Inr \<lparr>payload_id = 1, payload_role = ''formateur''\<rparr>
   \<and> post_emargement sample_env
       (sample_request (Some ''Bearer tok-formateur'') 1 (no_body\<lparr>status := Some True\<rparr>))
       sample_store
     = (\<lparr>http_status = 403, sent = Text ''Access Denied''\<rparr>, sample_store)
   \<and> http_status (fst (delete_sessions_id sample_env
       (sample_request (Some ''Bearer tok-formateur'') 1 (no_body\<lparr>status := Some True\<rparr>))
       sample_store)) \<noteq> 403"
proof -
  let ?rs = "sample_request (Some ''Bearer tok-etudiant'') 1 (session_body ''HOL'' ''2025-02-01'')"
  let ?rt = "sample_request (Some ''Bearer tok-formateur'') 1 (no_body\<lparr>status := Some True\<rparr>)"
  let ?s = "\<lparr>payload_id = 2, payload_role = ''etudiant''\<rparr>"
  let ?t = "\<lparr>payload_id = 1, payload_role = ''formateur''\<rparr>"
  have a: "header_token ?rs = Some ''tok-etudiant''"
    by (simp add: header_token_def sample_request_def)
  have b: "jwt_verify sample_env ''tok-etudiant'' (JWT_SECRET sample_env) = Inr ?s"
    by (simp add: sample_env_def)
  have c: "header_token ?rt = Some ''tok-formateur''"
    by (simp add: header_token_def sample_request_def)
  have d: "jwt_verify sample_env ''tok-formateur'' (JWT_SECRET sample_env) = Inr ?t"
    by (simp add: sample_env_def)
  have n: "''tok-etudiant'' \<noteq> []" "''tok-formateur'' \<noteq> []" by simp_all
  from role_gate [OF a n(1) b, of sample_store]
  have 1: "post_sessions sample_env ?rs sample_store
             = (\<lparr>http_status = 403, sent = Text ''Access Denied''\<rparr>, sample_store)"
    and 2: "delete_sessions_id sample_env ?rs sample_store
             = (\<lparr>http_status = 403, sent = Text ''Access Denied''\<rparr>, sample_store)"
    by simp_all
  from role_gate [OF c n(2) d, of sample_store]
  have 3: "post_emargement sample_env ?rt sample_store
             = (\<lparr>http_status = 403, sent = Text ''Access Denied''\<rparr>, sample_store)"
    and 4: "http_status (fst (delete_sessions_id sample_env ?rt sample_store)) \<noteq> 403"
    by simp_all
  from a b c d 1 2 3 4 show ?thesis by blast
qed

section \<open>Login\<close>

text \<open>
  Where the comparison returns false, \<^verbatim>\<open>POST /auth/login\<close> gives the same answer,
  401 with the text \<^verbatim>\<open>Invalid email or password\<close>, against a store that holds no
  user with the request's e-mail and against a store that holds one whose hash the
  password does not match; neither store is changed.
\<close>

lemma login_same_answer_when_comparison_false:
  assumes "\<not> outage db1" and "\<not> outage db2"
    and "\<forall>u \<in> set (users db1). Some (u_email u) \<noteq> email (body req)"
    and "filter (\<lambda>u. Some (u_email u) = email (body req)) (users db2) = u # rest"
    and "bcrypt_compare env (password (body req)) (u_password u) = Inr False"
  shows "post_auth_login env req db1
           = (\<lparr>http_status = 401, sent = Text ''Invalid email or password''\<rparr>, db1)
       \<and> post_auth_login env req db2
           = (\<lparr>http_status = 401, sent = Text ''Invalid email or password''\<rparr>, db2)
       \<and> fst (post_auth_login env req db1) = fst (post_auth_login env req db2)"
proof -
  from assms(3) have "filter (\<lambda>u. Some (u_email u) = email (body req)) (users db1) = []"
    by (simp add: filter_empty_conv)
  with assms(1) have 1: "post_auth_login env req db1 = (invalid_credentials, db1)"
    by (simp add: post_auth_login_def select_users_by_email_def)
  from assms(2,4,5) have 2: "post_auth_login env req db2 = (invalid_credentials, db2)"
    by (simp add: post_auth_login_def select_users_by_email_def)
  from 1 2 show ?thesis by (simp add: invalid_credentials_def)
qed

text \<open>
  Where the comparison throws, a stored e-mail is answered 500 with the exception's
  message; an e-mail that is not stored is answered 401 before the comparison is
  reached.
\<close>

lemma login_comparison_throws:
  assumes "select_users_by_email db (email (body req)) = Inr (u # rest)"
    and "bcrypt_compare env (password (body req)) (u_password u) = Inl err"
  shows "post_auth_login env req db = (\<lparr>http_status = 500, sent = Err_message err\<rparr>, db)"
  using assms by (simp add: post_auth_login_def)

lemma login_unknown_email:
  assumes "select_users_by_email db (email (body req)) = Inr []"
  shows "post_auth_login env req db
           = (\<lparr>http_status = 401, sent = Text ''Invalid email or password''\<rparr>, db)"
  using assms by (simp add: post_auth_login_def invalid_credentials_def)

text \<open>
  C1. The two failures of \<^verbatim>\<open>POST /auth/login\<close> are meant to look the same to the
  caller, and the handler sends one text for both; but a body that carries an e-mail and
  no password tells them apart. Against the same store, Ada's stored e-mail is answered
  500 (the comparison throws on the missing password, and the \<^verbatim>\<open>catch\<close> answers),
  while an e-mail that is not stored is answered 401.
\<close>

theorem login_absent_password_reveals_email:
  "post_auth_login sample_env
     (sample_request None 0 (no_body\<lparr>email := Some ''ada@ws.fr''\<rparr>)) sample_store
     = (\<lparr>http_status = 500,
         sent = Err_message (Lib_error ''data and hash arguments required'')\<rparr>, sample_store)
   \<and> post_auth_login sample_env
     (sample_request None 0 (no_body\<lparr>email := Some ''zoe@ws.fr''\<rparr>)) sample_store
     = (\<lparr>http_status = 401, sent = Text ''Invalid email or password''\<rparr>, sample_store)
   \<and> fst (post_auth_login sample_env
          (sample_request None 0 (no_body\<lparr>email := Some ''ada@ws.fr''\<rparr>)) sample_store)
     \<noteq> fst (post_auth_login sample_env
          (sample_request None 0 (no_body\<lparr>email := Some ''zoe@ws.fr''\<rparr>)) sample_store)"
  by (simp add: post_auth_login_def select_users_by_email_def invalid_credentials_def
      sample_defs)

text \<open>
  C9. Whenever \<^verbatim>\<open>POST /auth/login\<close> answers 200, its body is the token that the
  signing function returned for the claim set made of the id and the role of the first
  user row with the request's e-mail, and for the lifetime \<^verbatim>\<open>1h\<close>; and it answers
  200 with that token whenever the row is found, the password matches and signing
  succeeds.
\<close>

theorem login_token_claims:
  "(http_status (fst (post_auth_login env req db)) = 200 \<longrightarrow>
      (\<exists>u rest token.
         select_users_by_email db (email (body req)) = Inr (u # rest)
         \<and> bcrypt_compare env (password (body req)) (u_password u) = Inr True
         \<and> jwt_sign env \<lparr>payload_id = u_id u, payload_role = u_role u\<rparr> (JWT_SECRET env) ''1h''
             = Inr token
         \<and> post_auth_login env req db = (\<lparr>http_status = 200, sent = Json_token token\<rparr>, db)))
   \<and> (\<forall>u rest token.
         select_users_by_email db (email (body req)) = Inr (u # rest)
         \<and> bcrypt_compare env (password (body req)) (u_password u) = Inr True
         \<and> jwt_sign env \<lparr>payload_id = u_id u, payload_role = u_role u\<rparr> (JWT_SECRET env) ''1h''
             = Inr token
         \<longrightarrow> post_auth_login env req db = (\<lparr>http_status = 200, sent = Json_token token\<rparr>, db))"
  by (auto simp: post_auth_login_def invalid_credentials_def
      split: sum.splits list.splits if_splits)

theorem login_token_claims_witness:
  "select_users_by_email sample_store (Some ''ada@ws.fr'') = Inr [ada]
   \<and> bcrypt_compare sample_env (Some ''secret1'') (u_password ada) = Inr True
   \<and> jwt_sign sample_env \<lparr>payload_id = 1, payload_role = ''formateur''\<rparr>
       (JWT_SECRET sample_env) ''1h'' = Inr ''tok-formateur''
   \<and> post_auth_login sample_env
       (sample_request None 0 (login_body ''ada@ws.fr'' ''secret1'')) sample_store
     = (\<lparr>http_status = 200, sent = Json_token ''tok-formateur''\<rparr>, sample_store)"
proof -
  let ?req = "sample_request None 0 (login_body ''ada@ws.fr'' ''secret1'')"
  have m: "email (body ?req) = Some ''ada@ws.fr''" "password (body ?req) = Some ''secret1''"
    by (simp_all add: sample_request_def login_body_def no_body_def)
  have i: "u_id ada = 1" "u_role ada = ''formateur''" by (simp_all add: ada_def)
  have a: "select_users_by_email sample_store (Some ''ada@ws.fr'') = Inr [ada]"
    by (simp add: select_users_by_email_def sample_store_def ada_def bob_def)
  have b: "bcrypt_compare sample_env (Some ''secret1'') (u_password ada) = Inr True"
    by (simp add: sample_env_def ada_def)
  have c: "jwt_sign sample_env \<lparr>payload_id = 1, payload_role = ''formateur''\<rparr>
       (JWT_SECRET sample_env) ''1h'' = Inr ''tok-formateur''"
    by (simp add: sample_env_def)
  from login_token_claims [of sample_env ?req sample_store] a b c
  have "post_auth_login sample_env ?req sample_store
     = (\<lparr>http_status = 200, sent = Json_token ''tok-formateur''\<rparr>, sample_store)"
    unfolding m by (metis i)
  with a b c show ?thesis by blast
qed

section \<open>Signup\<close>

lemma insert_user_ok:
  "\<not> outage db \<Longrightarrow> length n \<le> 255 \<Longrightarrow> length e \<le> 255 \<Longrightarrow> length p \<le> 255 \<Longrightarrow>
   length r \<le> 255 \<Longrightarrow> e \<notin> u_email ` set (users db) \<Longrightarrow>
   insert_user db n e p r =
     Inr (db\<lparr>users := users db @
               [\<lparr>u_id = next_user_id db, u_name = n, u_email = e, u_password = p, u_role = r\<rparr>],
             next_user_id := next_user_id db + 1\<rparr>)"
  by (simp add: insert_user_def)

lemma insert_user_duplicate:
  "\<not> outage db \<Longrightarrow> length n \<le> 255 \<Longrightarrow> length e \<le> 255 \<Longrightarrow> length p \<le> 255 \<Longrightarrow>
   length r \<le> 255 \<Longrightarrow> e \<in> u_email ` set (users db) \<Longrightarrow>
   insert_user db n e p r = Inl (Sql_error Duplicate_entry)"
  by (simp add: insert_user_def)

lemma userSchema_parse_Inr:
  "userSchema_parse env b = Inr (n, e, p, r) \<longleftrightarrow>
     name b = Some n \<and> n \<noteq> [] \<and> email b = Some e \<and> zod_email env e
     \<and> password b = Some p \<and> 6 \<le> length p
     \<and> role b = Some r \<and> (r = ''formateur'' \<or> r = ''etudiant'')"
  by (auto simp: userSchema_parse_def Suc_le_eq split: option.splits)

lemma userSchema_parse_Inl:
  "userSchema_parse env b = Inl x \<Longrightarrow> x = ZodError"
  by (auto simp: userSchema_parse_def split: option.splits if_splits)

lemma signup_rejected:
  "userSchema_parse env (body req) = Inl x \<Longrightarrow>
     post_auth_signup env req db = (\<lparr>http_status = 400, sent = Err_message ZodError\<rparr>, db)"
  using userSchema_parse_Inl [of env "body req" x] by (simp add: post_auth_signup_def)

lemma userSchema_parse_violation:
  "name b = None \<or> name b = Some []
   \<or> email b = None \<or> (\<exists>e. email b = Some e \<and> \<not> zod_email env e)
   \<or> password b = None \<or> (\<exists>p. password b = Some p \<and> length p < 6)
   \<or> role b = None \<or> (\<exists>r. role b = Some r \<and> r \<noteq> ''formateur'' \<and> r \<noteq> ''etudiant'')
   \<Longrightarrow> userSchema_parse env b = Inl ZodError"
  by (auto simp: userSchema_parse_def split: option.splits)

text \<open>
  C5, as the code has it. \<^verbatim>\<open>POST /auth/signup\<close> answers 400 with the validation
  error and leaves the store unchanged whenever the name is absent or empty, the e-mail
  absent or not well-formed, the password absent or shorter than 6 characters, or the
  role absent or outside \<open>formateur\<close>, \<open>etudiant\<close>. On a payload that satisfies the four
  rules, with the store reachable and the name, the e-mail and the hash within the 255
  characters of their columns: when no stored user has the e-mail, it appends exactly
  one user row carrying the hash of the password and answers 201 with a fixed text;
  when a stored user has the e-mail, it answers 400 and leaves the store unchanged.
\<close>

theorem signup_validates_then_inserts:
  "(name (body req) = None \<or> name (body req) = Some []
    \<or> email (body req) = None \<or> (\<exists>e. email (body req) = Some e \<and> \<not> zod_email env e)
    \<or> password (body req) = None \<or> (\<exists>p. password (body req) = Some p \<and> length p < 6)
    \<or> role (body req) = None
    \<or> (\<exists>r. role (body req) = Some r \<and> r \<noteq> ''formateur'' \<and> r \<noteq> ''etudiant'')
    \<longrightarrow> post_auth_signup env req db
          = (\<lparr>http_status = 400, sent = Err_message ZodError\<rparr>, db))
   \<and> (\<forall>n e p r.
        name (body req) = Some n \<and> n \<noteq> [] \<and> email (body req) = Some e \<and> zod_email env e
        \<and> password (body req) = Some p \<and> 6 \<le> length p
        \<and> role (body req) = Some r \<and> (r = ''formateur'' \<or> r = ''etudiant'')
        \<and> \<not> outage db \<and> length n \<le> 255 \<and> length e \<le> 255
        \<and> length (bcrypt_hash env p 10) \<le> 255
        \<longrightarrow>
        (e \<notin> u_email ` set (users db) \<longrightarrow>
           post_auth_signup env req db
             = (\<lparr>http_status = 201, sent = Text ''User registered successfully''\<rparr>,
                db\<lparr>users := users db @
                      [\<lparr>u_id = next_user_id db, u_name = n, u_email = e,
                        u_password = bcrypt_hash env p 10, u_role = r\<rparr>],
                    next_user_id := next_user_id db + 1\<rparr>))
        \<and> (e \<in> u_email ` set (users db) \<longrightarrow>
           post_auth_signup env req db
             = (\<lparr>http_status = 400, sent = Err_message (Sql_error Duplicate_entry)\<rparr>, db)))"
proof (intro conjI allI impI)
  assume "name (body req) = None \<or> name (body req) = Some []
    \<or> email (body req) = None \<or> (\<exists>e. email (body req) = Some e \<and> \<not> zod_email env e)
    \<or> password (body req) = None \<or> (\<exists>p. password (body req) = Some p \<and> length p < 6)
    \<or> role (body req) = None
    \<or> (\<exists>r. role (body req) = Some r \<and> r \<noteq> ''formateur'' \<and> r \<noteq> ''etudiant'')"
  then have "userSchema_parse env (body req) = Inl ZodError"
    by (rule userSchema_parse_violation)
  then show "post_auth_signup env req db
          = (\<lparr>http_status = 400, sent = Err_message ZodError\<rparr>, db)"
    by (rule signup_rejected)
next
  fix n e p r
  assume v: "name (body req) = Some n \<and> n \<noteq> [] \<and> email (body req) = Some e \<and> zod_email env e
        \<and> password (body req) = Some p \<and> 6 \<le> length p
        \<and> role (body req) = Some r \<and> (r = ''formateur'' \<or> r = ''etudiant'')
        \<and> \<not> outage db \<and> length n \<le> 255 \<and> length e \<le> 255
        \<and> length (bcrypt_hash env p 10) \<le> 255"
  then have parse: "userSchema_parse env (body req) = Inr (n, e, p, r)"
    by (simp add: userSchema_parse_Inr)
  from v have r: "length r \<le> 255" by auto
  {
    assume "e \<notin> u_email ` set (users db)"
    with v r show "post_auth_signup env req db
             = (\<lparr>http_status = 201, sent = Text ''User registered successfully''\<rparr>,
                db\<lparr>users := users db @
                      [\<lparr>u_id = next_user_id db, u_name = n, u_email = e,
                        u_password = bcrypt_hash env p 10, u_role = r\<rparr>],
                    next_user_id := next_user_id db + 1\<rparr>)"
      by (simp add: post_auth_signup_def parse insert_user_ok)
  }
  {
    assume "e \<in> u_email ` set (users db)"
    with v r show "post_auth_signup env req db
             = (\<lparr>http_status = 400, sent = Err_message (Sql_error Duplicate_entry)\<rparr>, db)"
      by (simp add: post_auth_signup_def parse insert_user_duplicate)
  }
qed

theorem signup_validates_then_inserts_witness:
  "password (body (sample_request None 0
       (signup_body ''Eve'' ''eve@ws.fr'' ''12345'' ''etudiant''))) = Some ''12345''
   \<and> length ''12345'' < (6::nat)
   \<and> post_auth_signup sample_env
       (sample_request None 0 (signup_body ''Eve'' ''eve@ws.fr'' ''12345'' ''etudiant''))
       sample_store
     = (\<lparr>http_status = 400, sent = Err_message ZodError\<rparr>, sample_store)
   \<and> zod_email sample_env ''eve@ws.fr'' \<and> (6::nat) \<le> length ''123456''
   \<and> \<not> outage sample_store
   \<and> length (bcrypt_hash sample_env ''123456'' 10) \<le> 255
   \<and> ''eve@ws.fr'' \<notin> u_email ` set (users sample_store)
   \<and> post_auth_signup sample_env
       (sample_request None 0 (signup_body ''Eve'' ''eve@ws.fr'' ''123456'' ''etudiant''))
       sample_store
     = (\<lparr>http_status = 201, sent = Text ''User registered successfully''\<rparr>,
        sample_store\<lparr>users := users sample_store @
              [\<lparr>u_id = 3, u_name = ''Eve'', u_email = ''eve@ws.fr'',
                u_password = ''$2b$123456'', u_role = ''etudiant''\<rparr>],
            next_user_id := 4\<rparr>)"
proof -
  let ?bad = "sample_request None 0 (signup_body ''Eve'' ''eve@ws.fr'' ''12345'' ''etudiant'')"
  let ?good = "sample_request None 0 (signup_body ''Eve'' ''eve@ws.fr'' ''123456'' ''etudiant'')"
  have a: "password (body ?bad) = Some ''12345''"
    by (simp add: sample_request_def signup_body_def no_body_def)
  have a': "length ''12345'' < (6::nat)" by simp
  from signup_validates_then_inserts [of ?bad sample_env sample_store] a a'
  have 1: "post_auth_signup sample_env ?bad sample_store
     = (\<lparr>http_status = 400, sent = Err_message ZodError\<rparr>, sample_store)"
    by blast
  have g: "name (body ?good) = Some ''Eve''" "email (body ?good) = Some ''eve@ws.fr''"
    "password (body ?good) = Some ''123456''" "role (body ?good) = Some ''etudiant''"
    by (simp_all add: sample_request_def signup_body_def no_body_def)
  have b: "zod_email sample_env ''eve@ws.fr''" by (simp add: sample_env_def)
  have c: "(6::nat) \<le> length ''123456''" "''Eve'' \<noteq> []" "length ''Eve'' \<le> 255"
    "length ''eve@ws.fr'' \<le> 255"
    by simp_all
  have d: "\<not> outage sample_store" by (simp add: sample_store_def)
  have h: "length (bcrypt_hash sample_env ''123456'' 10) \<le> 255"
    "bcrypt_hash sample_env ''123456'' 10 = ''$2b$123456''"
    by (simp_all add: sample_env_def)
  have f: "''eve@ws.fr'' \<notin> u_email ` set (users sample_store)"
    by (simp add: sample_store_def ada_def bob_def)
  have k: "next_user_id sample_store = 3" by (simp add: sample_store_def)
  from signup_validates_then_inserts [of ?good sample_env sample_store] g b c d h(1) f
  have "post_auth_signup sample_env ?good sample_store
     = (\<lparr>http_status = 201, sent = Text ''User registered successfully''\<rparr>,
        sample_store\<lparr>users := users sample_store @
              [\<lparr>u_id = next_user_id sample_store, u_name = ''Eve'', u_email = ''eve@ws.fr'',
                u_password = bcrypt_hash sample_env ''123456'' 10, u_role = ''etudiant''\<rparr>],
            next_user_id := next_user_id sample_store + 1\<rparr>)"
    by blast
  then have 2: "post_auth_signup sample_env ?good sample_store
     = (\<lparr>http_status = 201, sent = Text ''User registered successfully''\<rparr>,
        sample_store\<lparr>users := users sample_store @
              [\<lparr>u_id = 3, u_name = ''Eve'', u_email = ''eve@ws.fr'',
                u_password = ''$2b$123456'', u_role = ''etudiant''\<rparr>],
            next_user_id := 4\<rparr>)"
    by (simp add: h(2) k)
  from a a' 1 b c(1) d h(1) f 2 show ?thesis by blast
qed

text \<open>
  The claim without the condition on the stored e-mails fails: a payload that satisfies
  the four rules and repeats Ada's e-mail is answered 400, and no row is inserted.
\<close>

theorem signup_duplicate_email_counterexample:
  "userSchema_parse sample_env (signup_body ''Ada'' ''ada@ws.fr'' ''secret9'' ''formateur'')
     = Inr (''Ada'', ''ada@ws.fr'', ''secret9'', ''formateur'')
   \<and> post_auth_signup sample_env
       (sample_request None 0 (signup_body ''Ada'' ''ada@ws.fr'' ''secret9'' ''formateur''))
       sample_store
     = (\<lparr>http_status = 400, sent = Err_message (Sql_error Duplicate_entry)\<rparr>, sample_store)"
  by (simp add: userSchema_parse_def post_auth_signup_def insert_user_def sample_defs)

section \<open>Listing the sessions\<close>

text \<open>
  C4. \<^verbatim>\<open>GET /sessions\<close>, when the store answers the query, returns 404 on an empty
  session table and 200 with all the sessions on a non-empty one; whatever the store,
  its answer is never 200 with an empty array.
\<close>

theorem get_sessions_empty_is_404:
  "(\<not> outage db \<and> sessions db = [] \<longrightarrow>
      get_sessions env req db = (\<lparr>http_status = 404, sent = Text ''Session not found''\<rparr>, db))
   \<and> (\<not> outage db \<and> sessions db \<noteq> [] \<longrightarrow>
      get_sessions env req db = (\<lparr>http_status = 200, sent = Json_sessions (sessions db)\<rparr>, db))
   \<and> fst (get_sessions env req db) \<noteq> \<lparr>http_status = 200, sent = Json_sessions []\<rparr>"
  by (simp add: get_sessions_def select_sessions_def session_not_found_def)

theorem get_sessions_empty_is_404_witness:
  "\<not> outage empty_store \<and> sessions empty_store = []
   \<and> get_sessions sample_env (sample_request None 0 no_body) empty_store
       = (\<lparr>http_status = 404, sent = Text ''Session not found''\<rparr>, empty_store)
   \<and> \<not> outage sample_store \<and> sessions sample_store \<noteq> []
   \<and> get_sessions sample_env (sample_request None 0 no_body) sample_store
       = (\<lparr>http_status = 200, sent = Json_sessions (sessions sample_store)\<rparr>, sample_store)"
proof -
  have e: "\<not> outage empty_store \<and> sessions empty_store = []"
    by (simp add: empty_store_def)
  have s: "\<not> outage sample_store \<and> sessions sample_store \<noteq> []"
    by (simp add: sample_store_def)
  from e s
    get_sessions_empty_is_404 [of empty_store sample_env "sample_request None 0 no_body"]
    get_sessions_empty_is_404 [of sample_store sample_env "sample_request None 0 no_body"]
  show ?thesis by blast
qed

section \<open>Marking attendance\<close>

lemma insert_emargement_ok:
  "\<not> outage db \<Longrightarrow> i \<in> s_id ` set (sessions db) \<Longrightarrow> etu \<in> u_id ` set (users db) \<Longrightarrow>
   insert_emargement db i etu (Some b) =
     Inr (db\<lparr>emargement := emargement db @
               [\<lparr>e_id = next_emargement_id db, session_id = i, etudiant_id = etu,
                 e_status = b\<rparr>],
             next_emargement_id := next_emargement_id db + 1\<rparr>)"
  by (simp add: insert_emargement_def)

lemma post_emargement_handler_ok:
  assumes "payload_role u = ''etudiant''" and "\<not> outage db"
    and "params_id req \<in> s_id ` set (sessions db)"
    and "payload_id u \<in> u_id ` set (users db)"
    and "status (body req) = Some b"
  shows "post_emargement_handler env u req db =
     (\<lparr>http_status = 201, sent = Text ''Attendance marked successfully''\<rparr>,
      db\<lparr>emargement := emargement db @
               [\<lparr>e_id = next_emargement_id db, session_id = params_id req,
                 etudiant_id = payload_id u, e_status = b\<rparr>],
          next_emargement_id := next_emargement_id db + 1\<rparr>)"
  using assms by (simp add: post_emargement_handler_def insert_emargement_ok)

text \<open>
  C6, as the code has it. For a student caller whose user row exists, a session that
  exists, a present-flag in the body and a reachable store, marking attendance twice
  for the same session succeeds both times (201) and appends two distinct attendance
  rows for that session and student; users and sessions stay as they were.
\<close>

theorem attendance_twice_two_rows:
  assumes "payload_role u = ''etudiant''" and "\<not> outage db"
    and "params_id req \<in> s_id ` set (sessions db)"
    and "payload_id u \<in> u_id ` set (users db)"
    and "status (body req) = Some b"
  shows "\<exists>db1 db2 r1 r2.
     post_emargement_handler env u req db
       = (\<lparr>http_status = 201, sent = Text ''Attendance marked successfully''\<rparr>, db1)
     \<and> post_emargement_handler env u req db1
       = (\<lparr>http_status = 201, sent = Text ''Attendance marked successfully''\<rparr>, db2)
     \<and> emargement db2 = emargement db @ [r1, r2]
     \<and> r1 \<noteq> r2
     \<and> session_id r1 = params_id req \<and> etudiant_id r1 = payload_id u
     \<and> session_id r2 = params_id req \<and> etudiant_id r2 = payload_id u
     \<and> users db2 = users db \<and> sessions db2 = sessions db"
proof -
  let ?r1 = "\<lparr>e_id = next_emargement_id db, session_id = params_id req,
              etudiant_id = payload_id u, e_status = b\<rparr>"
  let ?db1 = "db\<lparr>emargement := emargement db @ [?r1],
                 next_emargement_id := next_emargement_id db + 1\<rparr>"
  let ?r2 = "\<lparr>e_id = next_emargement_id db + 1, session_id = params_id req,
              etudiant_id = payload_id u, e_status = b\<rparr>"
  let ?db2 = "?db1\<lparr>emargement := emargement ?db1 @ [?r2],
                   next_emargement_id := next_emargement_id ?db1 + 1\<rparr>"
  have 1: "post_emargement_handler env u req db
       = (\<lparr>http_status = 201, sent = Text ''Attendance marked successfully''\<rparr>, ?db1)"
    using assms by (rule post_emargement_handler_ok)
  have "post_emargement_handler env u req ?db1
       = (\<lparr>http_status = 201, sent = Text ''Attendance marked successfully''\<rparr>,
          ?db1\<lparr>emargement := emargement ?db1 @
               [\<lparr>e_id = next_emargement_id ?db1, session_id = params_id req,
                 etudiant_id = payload_id u, e_status = b\<rparr>],
          next_emargement_id := next_emargement_id ?db1 + 1\<rparr>)"
    using assms by (intro post_emargement_handler_ok) simp_all
  then have 2: "post_emargement_handler env u req ?db1
       = (\<lparr>http_status = 201, sent = Text ''Attendance marked successfully''\<rparr>, ?db2)"
    by simp
  have 3: "emargement ?db2 = emargement db @ [?r1, ?r2]" by simp
  have 4: "?r1 \<noteq> ?r2" by simp
  show ?thesis
    apply (rule exI [of _ ?db1], rule exI [of _ ?db2], rule exI [of _ ?r1],
        rule exI [of _ ?r2])
    apply (intro conjI)
            apply (rule 1)
           apply (rule 2)
          apply (rule 3)
         apply (rule 4)
        apply simp_all
    done
qed

theorem attendance_twice_two_rows_witness:
  "payload_role \<lparr>payload_id = 2, payload_role = ''etudiant''\<rparr> = ''etudiant''
   \<and> \<not> outage sample_store
   \<and> (1::int) \<in> s_id ` set (sessions sample_store)
   \<and> (2::int) \<in> u_id ` set (users sample_store)
   \<and> (\<exists>db1 db2 r1 r2.
       post_emargement_handler sample_env \<lparr>payload_id = 2, payload_role = ''etudiant''\<rparr>
         (sample_request (Some ''Bearer tok-etudiant'') 1 (no_body\<lparr>status := Some True\<rparr>))
         sample_store
         = (\<lparr>http_status = 201, sent = Text ''Attendance marked successfully''\<rparr>, db1)
       \<and> post_emargement_handler sample_env \<lparr>payload_id = 2, payload_role = ''etudiant''\<rparr>
         (sample_request (Some ''Bearer tok-etudiant'') 1 (no_body\<lparr>status := Some True\<rparr>))
         db1
         = (\<lparr>http_status = 201, sent = Text ''Attendance marked successfully''\<rparr>, db2)
       \<and> emargement db2 = emargement sample_store @ [r1, r2]
       \<and> r1 \<noteq> r2
       \<and> session_id r1 = 1 \<and> etudiant_id r1 = 2
       \<and> session_id r2 = 1 \<and> etudiant_id r2 = 2)"
proof -
  let ?u = "\<lparr>payload_id = 2, payload_role = ''etudiant''\<rparr>"
  let ?req = "sample_request (Some ''Bearer tok-etudiant'') 1 (no_body\<lparr>status := Some True\<rparr>)"
  have a: "payload_role ?u = ''etudiant''" by simp
  have b: "\<not> outage sample_store" by (simp add: sample_store_def)
  have p: "params_id ?req = 1" "payload_id ?u = 2" by (simp_all add: sample_request_def)
  have c0: "(1::int) \<in> s_id ` set (sessions sample_store)" by (simp add: sample_store_def)
  have d0: "(2::int) \<in> u_id ` set (users sample_store)"
    by (simp add: sample_store_def ada_def bob_def)
  have c: "params_id ?req \<in> s_id ` set (sessions sample_store)" using c0 by (simp add: p)
  have d: "payload_id ?u \<in> u_id ` set (users sample_store)" using d0 by simp
  have e: "status (body ?req) = Some True" by (simp add: sample_request_def no_body_def)
  from attendance_twice_two_rows [OF a b c d e, of sample_env]
  have "\<exists>db1 db2 r1 r2.
       post_emargement_handler sample_env ?u ?req sample_store
         = (\<lparr>http_status = 201, sent = Text ''Attendance marked successfully''\<rparr>, db1)
       \<and> post_emargement_handler sample_env ?u ?req db1
         = (\<lparr>http_status = 201, sent = Text ''Attendance marked successfully''\<rparr>, db2)
       \<and> emargement db2 = emargement sample_store @ [r1, r2]
       \<and> r1 \<noteq> r2
       \<and> session_id r1 = 1 \<and> etudiant_id r1 = 2
       \<and> session_id r2 = 1 \<and> etudiant_id r2 = 2"
    unfolding p by blast
  with a b c0 d0 show ?thesis by blast
qed

text \<open>
  The claim fails for a session id that matches no session: the attendance row refers
  to a missing session, the store rejects the insert, and the first call is answered
  400 with the store unchanged.
\<close>

theorem attendance_unknown_session_counterexample:
  "post_emargement_handler sample_env \<lparr>payload_id = 2, payload_role = ''etudiant''\<rparr>
     (sample_request (Some ''Bearer tok-etudiant'') 7 (no_body\<lparr>status := Some True\<rparr>))
     sample_store
   = (\<lparr>http_status = 400, sent = Err_message (Sql_error Foreign_key_fails)\<rparr>, sample_store)"
  by (simp add: post_emargement_handler_def insert_emargement_def sample_defs)

section \<open>Updating and deleting a session\<close>

text \<open>
  C7. For every caller with the role \<open>formateur\<close> and every session that exists, with a
  title and a date that the columns accept and a reachable store, \<^verbatim>\<open>PUT /sessions/:id\<close>
  answers 200 and stores the new title and date in every row with that id. The caller's
  id plays no part: every trainer obtains the same result, whoever the session's
  \<open>formateur_id\<close> is.
\<close>

theorem update_any_trainer:
  assumes "payload_role u = ''formateur''" and "\<not> outage db"
    and "params_id req \<in> s_id ` set (sessions db)"
    and "title (body req) = Some t" and "length t \<le> 255"
    and "date (body req) = Some d" and "sql_date env d = Some d'"
  shows "put_sessions_id_handler env u req db
       = (\<lparr>http_status = 200, sent = Text ''Session updated successfully''\<rparr>,
          db\<lparr>sessions :=
               map (\<lambda>s. if s_id s = params_id req then s\<lparr>s_title := t, s_date := d'\<rparr> else s)
                 (sessions db)\<rparr>)
     \<and> (\<forall>s \<in> set (sessions db). s_id s = params_id req \<longrightarrow>
          s\<lparr>s_title := t, s_date := d'\<rparr>
            \<in> set (sessions (snd (put_sessions_id_handler env u req db))))
     \<and> (\<forall>s \<in> set (sessions (snd (put_sessions_id_handler env u req db))).
          s_id s = params_id req \<longrightarrow> s_title s = t \<and> s_date s = d')
     \<and> (\<forall>u'. payload_role u' = ''formateur'' \<longrightarrow>
          put_sessions_id_handler env u' req db = put_sessions_id_handler env u req db)"
proof -
  have upd: "update_session env db (title (body req)) (date (body req)) (params_id req)
      = Inr (db\<lparr>sessions :=
               map (\<lambda>s. if s_id s = params_id req then s\<lparr>s_title := t, s_date := d'\<rparr> else s)
                 (sessions db)\<rparr>)"
    using assms by (simp add: update_session_def varchar_column_def date_column_def)
  have put: "\<And>v. payload_role v = ''formateur'' \<Longrightarrow> put_sessions_id_handler env v req db
       = (\<lparr>http_status = 200, sent = Text ''Session updated successfully''\<rparr>,
          db\<lparr>sessions :=
               map (\<lambda>s. if s_id s = params_id req then s\<lparr>s_title := t, s_date := d'\<rparr> else s)
                 (sessions db)\<rparr>)"
    by (simp add: put_sessions_id_handler_def upd)
  show ?thesis
    using assms(1) by (auto simp: put)
qed

theorem update_any_trainer_witness:
  "payload_role \<lparr>payload_id = 9, payload_role = ''formateur''\<rparr> = ''formateur''
   \<and> \<not> outage sample_store
   \<and> sessions sample_store
     = [\<lparr>s_id = 1, s_title = ''Isabelle'', s_date = ''2025-01-15'', formateur_id = 1\<rparr>]
   \<and> length ''HOL'' \<le> (255::nat)
   \<and> sql_date sample_env ''2025-02-01'' = Some ''2025-02-01''
   \<and> put_sessions_id_handler sample_env \<lparr>payload_id = 9, payload_role = ''formateur''\<rparr>
       (sample_request (Some ''Bearer tok-formateur'') 1 (session_body ''HOL'' ''2025-02-01''))
       sample_store
     = (\<lparr>http_status = 200, sent = Text ''Session updated successfully''\<rparr>,
        sample_store\<lparr>sessions :=
          [\<lparr>s_id = 1, s_title = ''HOL'', s_date = ''2025-02-01'', formateur_id = 1\<rparr>]\<rparr>)"
proof -
  let ?u = "\<lparr>payload_id = 9, payload_role = ''formateur''\<rparr>"
  let ?req = "sample_request (Some ''Bearer tok-formateur'') 1
                (session_body ''HOL'' ''2025-02-01'')"
  have a: "payload_role ?u = ''formateur''" by simp
  have b: "\<not> outage sample_store" by (simp add: sample_store_def)
  have s: "sessions sample_store
     = [\<lparr>s_id = 1, s_title = ''Isabelle'', s_date = ''2025-01-15'', formateur_id = 1\<rparr>]"
    by (simp add: sample_store_def)
  have p: "params_id ?req = 1" by (simp add: sample_request_def)
  have c: "params_id ?req \<in> s_id ` set (sessions sample_store)" by (simp add: p s)
  have t: "title (body ?req) = Some ''HOL''"
    by (simp add: sample_request_def session_body_def no_body_def)
  have l: "length ''HOL'' \<le> (255::nat)" by simp
  have d: "date (body ?req) = Some ''2025-02-01''"
    by (simp add: sample_request_def session_body_def no_body_def)
  have q: "sql_date sample_env ''2025-02-01'' = Some ''2025-02-01''"
    by (simp add: sample_env_def)
  from update_any_trainer [OF a b c t l d q]
  have "put_sessions_id_handler sample_env ?u ?req sample_store
       = (\<lparr>http_status = 200, sent = Text ''Session updated successfully''\<rparr>,
          sample_store\<lparr>sessions :=
               map (\<lambda>s. if s_id s = params_id ?req
                         then s\<lparr>s_title := ''HOL'', s_date := ''2025-02-01''\<rparr> else s)
                 (sessions sample_store)\<rparr>)"
    by blast
  then have "put_sessions_id_handler sample_env ?u ?req sample_store
     = (\<lparr>http_status = 200, sent = Text ''Session updated successfully''\<rparr>,
        sample_store\<lparr>sessions :=
          [\<lparr>s_id = 1, s_title = ''HOL'', s_date = ''2025-02-01'', formateur_id = 1\<rparr>]\<rparr>)"
    by (simp add: p s)
  with a b s l q show ?thesis by blast
qed

lemma update_session_no_match:
  "\<not> outage db \<Longrightarrow> i \<notin> s_id ` set (sessions db) \<Longrightarrow> update_session env db t d i = Inr db"
  by (simp add: update_session_def)

lemma delete_session_no_match:
  assumes "\<not> outage db" and "i \<notin> s_id ` set (sessions db)"
  shows "delete_session db i = Inr db"
proof -
  from assms(2) have "filter (\<lambda>s. s_id s \<noteq> i) (sessions db) = sessions db"
    by (auto simp: filter_id_conv)
  with assms show ?thesis by (simp add: delete_session_def)
qed

text \<open>
  C10. For a session id that matches no session, a trainer and a reachable store,
  \<^verbatim>\<open>PUT /sessions/:id\<close> and \<^verbatim>\<open>DELETE /sessions/:id\<close> both answer 200 with their
  success message and leave the store as it was, while \<^verbatim>\<open>GET /sessions/:id\<close> answers
  404 for the same id.
\<close>

theorem update_delete_missing_session:
  assumes "payload_role u = ''formateur''" and "\<not> outage db"
    and "params_id req \<notin> s_id ` set (sessions db)"
  shows "put_sessions_id_handler env u req db
       = (\<lparr>http_status = 200, sent = Text ''Session updated successfully''\<rparr>, db)
     \<and> delete_sessions_id_handler env u req db
       = (\<lparr>http_status = 200, sent = Text ''Session deleted successfully''\<rparr>, db)
     \<and> get_sessions_id env req db
       = (\<lparr>http_status = 404, sent = Text ''Session not found''\<rparr>, db)"
proof (intro conjI)
  show "put_sessions_id_handler env u req db
       = (\<lparr>http_status = 200, sent = Text ''Session updated successfully''\<rparr>, db)"
    using assms by (simp add: put_sessions_id_handler_def update_session_no_match)
  show "delete_sessions_id_handler env u req db
       = (\<lparr>http_status = 200, sent = Text ''Session deleted successfully''\<rparr>, db)"
    using assms by (simp add: delete_sessions_id_handler_def delete_session_no_match)
  from assms(3) have "filter (\<lambda>s. s_id s = params_id req) (sessions db) = []"
    by (auto simp: filter_empty_conv image_iff)
  with assms(2) show "get_sessions_id env req db
       = (\<lparr>http_status = 404, sent = Text ''Session not found''\<rparr>, db)"
    by (simp add: get_sessions_id_def select_session_by_id_def session_not_found_def)
qed

theorem update_delete_missing_session_witness:
  "payload_role \<lparr>payload_id = 1, payload_role = ''formateur''\<rparr> = ''formateur''
   \<and> \<not> outage sample_store
   \<and> (42::int) \<notin> s_id ` set (sessions sample_store)
   \<and> put_sessions_id_handler sample_env \<lparr>payload_id = 1, payload_role = ''formateur''\<rparr>
       (sample_request (Some ''Bearer tok-formateur'') 42 (session_body ''HOL'' ''2025-02-01''))
       sample_store
     = (\<lparr>http_status = 200, sent = Text ''Session updated successfully''\<rparr>, sample_store)
   \<and> delete_sessions_id_handler sample_env \<lparr>payload_id = 1, payload_role = ''formateur''\<rparr>
       (sample_request (Some ''Bearer tok-formateur'') 42 (session_body ''HOL'' ''2025-02-01''))
       sample_store
     = (\<lparr>http_status = 200, sent = Text ''Session deleted successfully''\<rparr>, sample_store)
   \<and> get_sessions_id sample_env
       (sample_request (Some ''Bearer tok-formateur'') 42 (session_body ''HOL'' ''2025-02-01''))
       sample_store
     = (\<lparr>http_status = 404, sent = Text ''Session not found''\<rparr>, sample_store)"
proof -
  let ?u = "\<lparr>payload_id = 1, payload_role = ''formateur''\<rparr>"
  let ?req = "sample_request (Some ''Bearer tok-formateur'') 42
                (session_body ''HOL'' ''2025-02-01'')"
  have a: "payload_role ?u = ''formateur''" by simp
  have b: "\<not> outage sample_store" by (simp add: sample_store_def)
  have c0: "(42::int) \<notin> s_id ` set (sessions sample_store)" by (simp add: sample_store_def)
  then have c: "params_id ?req \<notin> s_id ` set (sessions sample_store)"
    by (simp add: sample_request_def)
  from update_delete_missing_session [OF a b c, of sample_env] a b c0
  show ?thesis by blast
qed

section \<open>Listing a session's attendance\<close>

text \<open>
  C8. For every session id, a trainer and a reachable store,
  \<^verbatim>\<open>GET /sessions/:id/emargement\<close> answers 200 with the attendance rows of that
  session and leaves the store as it was; when there is none the body is the empty
  array, in particular for an id that matches no session of a store whose attendance
  rows all refer to existing sessions.
\<close>

theorem attendance_list_may_be_empty:
  assumes "payload_role u = ''formateur''" and "\<not> outage db"
  shows "get_emargement_handler env u req db
       = (\<lparr>http_status = 200,
           sent = Json_emargement
                    (filter (\<lambda>e. session_id e = params_id req) (emargement db))\<rparr>, db)
     \<and> (params_id req \<notin> session_id ` set (emargement db) \<longrightarrow>
          get_emargement_handler env u req db
            = (\<lparr>http_status = 200, sent = Json_emargement []\<rparr>, db))
     \<and> ((\<forall>e \<in> set (emargement db). session_id e \<in> s_id ` set (sessions db))
         \<and> params_id req \<notin> s_id ` set (sessions db) \<longrightarrow>
          get_emargement_handler env u req db
            = (\<lparr>http_status = 200, sent = Json_emargement []\<rparr>, db))"
proof -
  have 1: "get_emargement_handler env u req db
       = (\<lparr>http_status = 200,
           sent = Json_emargement
                    (filter (\<lambda>e. session_id e = params_id req) (emargement db))\<rparr>, db)"
    using assms by (simp add: get_emargement_handler_def select_emargement_def)
  have 2: "filter (\<lambda>e. session_id e = params_id req) (emargement db) = []"
    if "params_id req \<notin> session_id ` set (emargement db)"
    using that by (auto simp: filter_empty_conv image_iff)
  have 3: "params_id req \<notin> session_id ` set (emargement db)"
    if "(\<forall>e \<in> set (emargement db). session_id e \<in> s_id ` set (sessions db))
         \<and> params_id req \<notin> s_id ` set (sessions db)"
    using that by auto
  show ?thesis using 1 2 3 by simp
qed

theorem attendance_list_may_be_empty_witness:
  "payload_role \<lparr>payload_id = 1, payload_role = ''formateur''\<rparr> = ''formateur''
   \<and> \<not> outage sample_store
   \<and> emargement sample_store = []
   \<and> (42::int) \<notin> s_id ` set (sessions sample_store)
   \<and> get_emargement_handler sample_env \<lparr>payload_id = 1, payload_role = ''formateur''\<rparr>
       (sample_request (Some ''Bearer tok-formateur'') 42 no_body) sample_store
     = (\<lparr>http_status = 200, sent = Json_emargement []\<rparr>, sample_store)"
proof -
  let ?u = "\<lparr>payload_id = 1, payload_role = ''formateur''\<rparr>"
  let ?req = "sample_request (Some ''Bearer tok-formateur'') 42 no_body"
  have a: "payload_role ?u = ''formateur''" by simp
  have b: "\<not> outage sample_store" by (simp add: sample_store_def)
  have e: "emargement sample_store = []" by (simp add: sample_store_def)
  have c0: "(42::int) \<notin> s_id ` set (sessions sample_store)" by (simp add: sample_store_def)
  have c: "(\<forall>e \<in> set (emargement sample_store). session_id e \<in> s_id ` set (sessions sample_store))
         \<and> params_id ?req \<notin> s_id ` set (sessions sample_store)"
    using c0 by (simp add: e sample_request_def)
  from attendance_list_may_be_empty [OF a b, of sample_env ?req] c
  have "get_emargement_handler sample_env ?u ?req sample_store
     = (\<lparr>http_status = 200, sent = Json_emargement []\<rparr>, sample_store)"
    by blast
  with a b e c0 show ?thesis by blast
qed

end
